theory Spec2Isabelle
  imports Main "HOL-Library.Sublist"
begin

section \<open>The repository-processing pipeline of app.py\<close>

text \<open>
  A shallow embedding of \<^verbatim>\<open>src/app/app.py\<close>. A Python \<^verbatim>\<open>str\<close> is a \<open>string\<close>
  holding its UTF-8 bytes. Every call that leaves the process (a subprocess, an HTTP
  request, a git operation) asks an oracle of the environment for its result and is
  appended to the list of calls made so far; the oracle sees that list, so the same call
  may answer differently the second time. The local file system is a map from path
  strings to nodes; paths are compared as text (no symbolic links, no \<^verbatim>\<open>..\<close>).
  An exception is a value: every computation returns \<open>Inl\<close> of the exception raised or
  \<open>Inr\<close> of its result, together with the new world. Only subclasses of
  \<^verbatim>\<open>Exception\<close> are modelled (no \<^verbatim>\<open>KeyboardInterrupt\<close>).
\<close>

subsection \<open>Values\<close>

text \<open>A JSON value, as \<^verbatim>\<open>response.json()\<close> returns it and \<^verbatim>\<open>jsonify\<close> takes it.
  The items of a \<open>JObject\<close> are those of the Python dict, in order.\<close>

datatype json =
    JNull
  | JBool bool
  | JNumber int
  | JString string
  | JArray "json list"
  | JObject "(string \<times> json) list"

text \<open>The exception classes the handlers of app.py tell apart; each carries \<^verbatim>\<open>str(e)\<close>.
  \<open>OtherException\<close> is any other subclass of \<^verbatim>\<open>Exception\<close> (KeyError, TypeError,
  AttributeError, ValueError, an OSError that is not FileNotFoundError, ...).\<close>

datatype exn =
    GitError string
  | CalledProcessError string
  | RequestException string
  | FileNotFoundError string
  | OtherException string

fun str_exn :: "exn \<Rightarrow> string" where
  "str_exn (GitError t) = t"
| "str_exn (CalledProcessError t) = t"
| "str_exn (RequestException t) = t"
| "str_exn (FileNotFoundError t) = t"
| "str_exn (OtherException t) = t"

text \<open>A \<^verbatim>\<open>requests.Response\<close>: the status code, the message \<^verbatim>\<open>raise_for_status\<close>
  raises with, and what \<^verbatim>\<open>.json()\<close> gives (it raises on a body that is not JSON).\<close>

record response =
  status_code :: nat
  http_error_msg :: string
  json_body :: "exn + json"

text \<open>One entry of the list GitPython's \<^verbatim>\<open>Remote.push\<close> returns, a \<^verbatim>\<open>PushInfo\<close>:
  whether its flags have \<^verbatim>\<open>ERROR\<close> set (the ref was rejected), and its summary. A
  rejected ref is reported in this list; \<^verbatim>\<open>push\<close> does not raise for it.\<close>

datatype push_info = PushInfo bool string

datatype node = Dir | File "string option"
  \<comment> \<open>a file holds its text, or \<open>None\<close> when its bytes are not valid UTF-8\<close>

record parse_result =
  scheme :: string
  netloc :: string
  path :: string
  params :: string
  query :: string
  fragment :: string

datatype level = INFO | ERROR

datatype log_arg = S string | J json | Traceback exn

datatype log_record = Log level string "log_arg list"
  \<comment> \<open>level, format string, arguments of one \<^verbatim>\<open>logging\<close> call\<close>

datatype call =
    SubprocessRun "string list"
  | RequestsGet string "(string option \<times> string) option"
  | RequestsPost string "(string \<times> string option) list" json
  | PathExists string
  | OpenRead string
  | Makedirs string
  | Rmtree string
  | CloneFrom string string
  | RepoOpen string
  | CreateRemote string string string
  | Push string string string

subsection \<open>The environment and the world\<close>

text \<open>The module-level configuration read from the process environment (lines 17-20 and
  67; \<^verbatim>\<open>os.getenv\<close> gives \<^verbatim>\<open>None\<close> for an unset variable), and the collaborators
  that are not code of this repository: \<^verbatim>\<open>subprocess.run(..., check=True)\<close>,
  \<^verbatim>\<open>requests.get\<close>, \<^verbatim>\<open>requests.post\<close>, GitPython's \<^verbatim>\<open>Repo.clone_from\<close>,
  \<^verbatim>\<open>Repo\<close>, \<^verbatim>\<open>create_remote\<close> and \<^verbatim>\<open>push\<close>, and \<^verbatim>\<open>urlparse\<close> and
  \<^verbatim>\<open>urlunparse\<close> of the standard library. A successful clone answers with the tree
  it writes.\<close>

record env =
  GITHUB_TOKEN :: "string option"
  SONAR_TOKEN :: "string option"
  GITLAB_TOKEN :: "string option"
  GITLAB_URL :: string
  GITHUB_USERNAME :: "string option"
  subprocess_run :: "call list \<Rightarrow> string list \<Rightarrow> exn + unit"
  requests_get :: "call list \<Rightarrow> string \<Rightarrow> (string option \<times> string) option \<Rightarrow> exn + response"
  requests_post :: "call list \<Rightarrow> string \<Rightarrow> (string \<times> string option) list \<Rightarrow> json \<Rightarrow> exn + response"
  clone_from :: "call list \<Rightarrow> string \<Rightarrow> string \<Rightarrow> exn + (string \<Rightarrow> node option)"
  repo_open :: "call list \<Rightarrow> string \<Rightarrow> exn + unit"
  create_remote :: "call list \<Rightarrow> string \<Rightarrow> string \<Rightarrow> string \<Rightarrow> exn + unit"
  push :: "call list \<Rightarrow> string \<Rightarrow> string \<Rightarrow> string \<Rightarrow> exn + push_info list"
  urlparse :: "string \<Rightarrow> exn + parse_result"
  urlunparse :: "parse_result \<Rightarrow> string"

record world =
  fs :: "string \<Rightarrow> node option"
  calls :: "call list"
  logs :: "log_record list"

type_synonym 'a io = "world \<Rightarrow> (exn + 'a) \<times> world"

definition return_io :: "'a \<Rightarrow> 'a io" where
  "return_io x = (\<lambda>w. (Inr x, w))"

definition raise_io :: "exn \<Rightarrow> 'a io" where
  "raise_io e = (\<lambda>w. (Inl e, w))"

definition bind_io :: "'a io \<Rightarrow> ('a \<Rightarrow> 'b io) \<Rightarrow> 'b io" where
  "bind_io m f = (\<lambda>w. case m w of (Inl e, w') \<Rightarrow> (Inl e, w') | (Inr x, w') \<Rightarrow> f x w')"

text \<open>\<^verbatim>\<open>try: m except ...: h\<close>; a handler that does not match re-raises.\<close>

definition catch_io :: "'a io \<Rightarrow> (exn \<Rightarrow> 'a io) \<Rightarrow> 'a io" where
  "catch_io m h = (\<lambda>w. case m w of (Inl e, w') \<Rightarrow> h e w' | (Inr x, w') \<Rightarrow> (Inr x, w'))"

definition lift_io :: "exn + 'a \<Rightarrow> 'a io" where
  "lift_io r = (\<lambda>w. (r, w))"

definition logging :: "level \<Rightarrow> string \<Rightarrow> log_arg list \<Rightarrow> unit io" where
  "logging l fmt args = (\<lambda>w. (Inr (), w\<lparr>logs := logs w @ [Log l fmt args]\<rparr>))"

text \<open>An outside call: the oracle answers from the calls made so far, and the call is
  recorded.\<close>

definition call_io :: "call \<Rightarrow> (call list \<Rightarrow> exn + 'a) \<Rightarrow> 'a io" where
  "call_io c oracle = (\<lambda>w. (oracle (calls w), w\<lparr>calls := calls w @ [c]\<rparr>))"

subsection \<open>Library functions on strings and paths\<close>

text \<open>\<^verbatim>\<open>urllib.parse.quote(s, safe)\<close>: letters, digits, \<^verbatim>\<open>_.-~\<close> and the characters of
  \<open>safe\<close> stay; every other byte becomes \<^verbatim>\<open>%XX\<close> in upper-case hexadecimal.\<close>

definition always_safe :: "char \<Rightarrow> bool" where
  "always_safe c = (c \<in> set (''ABCDEFGHIJKLMNOPQRSTUVWXYZ'' @ ''abcdefghijklmnopqrstuvwxyz''
                               @ ''0123456789'' @ ''_.-~''))"

definition upper_hex :: string where
  "upper_hex = ''0123456789ABCDEF''"

definition hex_digit :: "nat \<Rightarrow> char" where
  "hex_digit n = upper_hex ! (n mod 16)"

definition quote_byte :: "string \<Rightarrow> char \<Rightarrow> string" where
  "quote_byte safe c =
     (if always_safe c \<or> c \<in> set safe then [c]
      else [CHR ''%'', hex_digit (of_char c div 16), hex_digit (of_char c mod 16)])"

definition quote :: "string \<Rightarrow> string \<Rightarrow> string" where
  "quote safe s = concat (map (quote_byte safe) s)"

text \<open>An f-string prints \<^verbatim>\<open>None\<close> as the text \<^verbatim>\<open>None\<close>.\<close>

definition fmt_opt :: "string option \<Rightarrow> string" where
  "fmt_opt v = (case v of None \<Rightarrow> ''None'' | Some s \<Rightarrow> s)"

text \<open>\<^verbatim>\<open>os.path.join(a, b)\<close> of posixpath.\<close>

definition os_path_join :: "string \<Rightarrow> string \<Rightarrow> string" where
  "os_path_join a b =
     (if b \<noteq> [] \<and> hd b = CHR ''/'' then b
      else if a = [] \<or> last a = CHR ''/'' then a @ b
      else a @ ''/'' @ b)"

text \<open>\<open>inside p k\<close>: the path \<open>k\<close> is \<open>p\<close> or lies below the directory \<open>p\<close>.\<close>

definition inside :: "string \<Rightarrow> string \<Rightarrow> bool" where
  "inside p k = (k = p \<or> prefix (if p \<noteq> [] \<and> last p = CHR ''/'' then p else p @ ''/'') k)"

text \<open>\<^verbatim>\<open>os.path.exists\<close>.\<close>

definition path_exists :: "string \<Rightarrow> bool io" where
  "path_exists p = (\<lambda>w. (Inr (fs w p \<noteq> None), w\<lparr>calls := calls w @ [PathExists p]\<rparr>))"

text \<open>\<^verbatim>\<open>shutil.rmtree\<close>: removes the directory and all below it; raises on a missing
  path and on a path that is not a directory.\<close>

definition rmtree :: "string \<Rightarrow> unit io" where
  "rmtree p = (\<lambda>w.
     let w' = w\<lparr>calls := calls w @ [Rmtree p]\<rparr> in
     case fs w p of
       None \<Rightarrow> (Inl (FileNotFoundError (''[Errno 2] No such file or directory: '' @ p)), w')
     | Some (File t) \<Rightarrow> (Inl (OtherException (''[Errno 20] Not a directory: '' @ p)), w')
     | Some Dir \<Rightarrow> (Inr (), w'\<lparr>fs := (\<lambda>k. if inside p k then None else fs w k)\<rparr>))"

text \<open>\<^verbatim>\<open>os.makedirs(p, exist_ok=True)\<close>.\<close>

definition makedirs :: "string \<Rightarrow> unit io" where
  "makedirs p = (\<lambda>w.
     let w' = w\<lparr>calls := calls w @ [Makedirs p]\<rparr> in
     case fs w p of
       None \<Rightarrow> (Inr (), w'\<lparr>fs := (fs w)(p \<mapsto> Dir)\<rparr>)
     | Some Dir \<Rightarrow> (Inr (), w')
     | Some (File t) \<Rightarrow> (Inl (OtherException (''[Errno 17] File exists: '' @ p)), w'))"

text \<open>\<^verbatim>\<open>open(p, 'r', encoding='utf-8').read()\<close>.\<close>

definition open_read :: "string \<Rightarrow> string io" where
  "open_read p = (\<lambda>w.
     let w' = w\<lparr>calls := calls w @ [OpenRead p]\<rparr> in
     case fs w p of
       None \<Rightarrow> (Inl (FileNotFoundError (''[Errno 2] No such file or directory: '' @ p)), w')
     | Some Dir \<Rightarrow> (Inl (OtherException (''[Errno 21] Is a directory: '' @ p)), w')
     | Some (File None) \<Rightarrow> (Inl (OtherException ''UnicodeDecodeError''), w')
     | Some (File (Some t)) \<Rightarrow> (Inr t, w'))"

text \<open>\<^verbatim>\<open>Repo.clone_from(url, p)\<close>: on success the directory \<open>p\<close> exists and holds the
  tree the clone wrote; nothing outside \<open>p\<close> changes.\<close>

definition repo_clone_from :: "env \<Rightarrow> string \<Rightarrow> string \<Rightarrow> unit io" where
  "repo_clone_from E url p = (\<lambda>w.
     let w' = w\<lparr>calls := calls w @ [CloneFrom url p]\<rparr> in
     case clone_from E (calls w) url p of
       Inl e \<Rightarrow> (Inl e, w')
     | Inr tree \<Rightarrow> (Inr (), w'\<lparr>fs := (\<lambda>k. if k = p then Some Dir
                                          else if inside p k \<and> tree k \<noteq> None then tree k
                                          else fs w k)\<rparr>))"

text \<open>\<^verbatim>\<open>s.split(c)\<close> for a one-character separator; the result is never empty.\<close>

fun split_on :: "char \<Rightarrow> string \<Rightarrow> string list" where
  "split_on c [] = [[]]"
| "split_on c (x # xs) =
     (if x = c then [] # split_on c xs
      else (case split_on c xs of [] \<Rightarrow> [[x]] | y # ys \<Rightarrow> (x # y) # ys))"

text \<open>\<^verbatim>\<open>s.replace(old, new)\<close>: every occurrence, left to right, without overlap.\<close>

function py_replace :: "string \<Rightarrow> string \<Rightarrow> string \<Rightarrow> string" where
  "py_replace old new s =
     (if old = [] then new @ concat (map (\<lambda>c. c # new) s)
      else if s = [] then []
      else if prefix old s then new @ py_replace old new (drop (length old) s)
      else hd s # py_replace old new (tl s))"
  by pat_completeness auto
termination
  by (relation "measure (\<lambda>(old, new, s). length s)") auto

declare py_replace.simps [simp del]

text \<open>\<^verbatim>\<open>d[k]\<close> on a parsed JSON value: KeyError on a missing key, TypeError on a
  value that is not a dict.\<close>

definition json_getitem :: "json \<Rightarrow> string \<Rightarrow> exn + json" where
  "json_getitem v k =
     (case v of
        JObject kvs \<Rightarrow> (case map_of kvs k of
                          None \<Rightarrow> Inl (OtherException (''KeyError: '' @ k))
                        | Some x \<Rightarrow> Inr x)
      | _ \<Rightarrow> Inl (OtherException ''TypeError''))"

text \<open>\<^verbatim>\<open>d.get(k, default)\<close>: AttributeError on a value that is not a dict.\<close>

definition json_get :: "json \<Rightarrow> string \<Rightarrow> json \<Rightarrow> exn + json" where
  "json_get v k d =
     (case v of
        JObject kvs \<Rightarrow> (case map_of kvs k of None \<Rightarrow> Inr d | Some x \<Rightarrow> Inr x)
      | _ \<Rightarrow> Inl (OtherException ''AttributeError: no attribute get''))"

text \<open>\<^verbatim>\<open>v.replace(old, new)\<close> on a parsed JSON value: AttributeError unless it is a
  string.\<close>

definition json_replace :: "json \<Rightarrow> string \<Rightarrow> string \<Rightarrow> exn + string" where
  "json_replace v old new =
     (case v of
        JString s \<Rightarrow> Inr (py_replace old new s)
      | _ \<Rightarrow> Inl (OtherException ''AttributeError: no attribute replace''))"

text \<open>\<^verbatim>\<open>response.raise_for_status()\<close>: HTTPError, a RequestException, on 4xx and 5xx.\<close>

definition raise_for_status :: "response \<Rightarrow> unit io" where
  "raise_for_status r =
     (if 400 \<le> status_code r \<and> status_code r < 600
      then raise_io (RequestException (http_error_msg r))
      else return_io ())"

subsection \<open>Availability probes (lines 27-41)\<close>

definition check_sonarqube_availability :: "env \<Rightarrow> string \<Rightarrow> bool io" where
  "check_sonarqube_availability E sonar_host_url =
     (let url = sonar_host_url @ ''/api/system/status'' in
      catch_io
        (bind_io (call_io (RequestsGet url None) (\<lambda>h. requests_get E h url None))
           (\<lambda>response. return_io (status_code response = 200)))
        (\<lambda>e. case e of RequestException t \<Rightarrow> return_io False | _ \<Rightarrow> raise_io e))"

definition check_sonarscanner_availability :: "env \<Rightarrow> bool io" where
  "check_sonarscanner_availability E =
     (let cmd = [''sonar-scanner'', ''-v''] in
      catch_io
        (bind_io (call_io (SubprocessRun cmd) (\<lambda>h. subprocess_run E h cmd))
           (\<lambda>_. return_io True))
        (\<lambda>e. case e of
                CalledProcessError t \<Rightarrow> return_io False
              | FileNotFoundError t \<Rightarrow> return_io False
              | _ \<Rightarrow> raise_io e))"

subsection \<open>The analysis stage (lines 43-91)\<close>

definition project_key :: "env \<Rightarrow> string \<Rightarrow> string" where
  "project_key E repo_name =
     quote [] ((case GITHUB_USERNAME E of None \<Rightarrow> ''default'' | Some u \<Rightarrow> u) @ ''/'' @ repo_name)"

definition sonar_scanner_cmd :: "env \<Rightarrow> string \<Rightarrow> string \<Rightarrow> string \<Rightarrow> string list" where
  "sonar_scanner_cmd E repo_path repo_name sonar_host_url =
     [''sonar-scanner'',
      ''-Dsonar.projectKey='' @ project_key E repo_name,
      ''-Dsonar.sources='' @ repo_path,
      ''-Dsonar.host.url='' @ sonar_host_url,
      ''-Dsonar.login='' @ fmt_opt (SONAR_TOKEN E)]"

definition sonar_api_url :: "env \<Rightarrow> string \<Rightarrow> string \<Rightarrow> string" where
  "sonar_api_url E repo_name sonar_host_url =
     sonar_host_url @ ''/api/issues/search?projectKeys='' @ project_key E repo_name"

text \<open>The body of the \<^verbatim>\<open>try\<close> of lines 65-85.\<close>

definition scan_and_fetch :: "env \<Rightarrow> string \<Rightarrow> string \<Rightarrow> string \<Rightarrow> json io" where
  "scan_and_fetch E repo_path repo_name sonar_host_url =
     (let cmd = sonar_scanner_cmd E repo_path repo_name sonar_host_url;
          url = sonar_api_url E repo_name sonar_host_url;
          auth = Some (SONAR_TOKEN E, []) in
      bind_io (call_io (SubprocessRun cmd) (\<lambda>h. subprocess_run E h cmd)) (\<lambda>_.
      bind_io (call_io (RequestsGet url auth) (\<lambda>h. requests_get E h url auth)) (\<lambda>response.
      bind_io (raise_for_status response) (\<lambda>_.
      bind_io (lift_io (json_body response)) (\<lambda>body.
      bind_io (lift_io (json_get body ''issues'' (JArray []))) (\<lambda>issues.
      return_io (JObject [(''status'', JString ''Code analysis completed successfully.''),
                          (''issues'', issues)])))))))"

definition perform_code_analysis :: "env \<Rightarrow> string \<Rightarrow> string \<Rightarrow> string \<Rightarrow> json io" where
  "perform_code_analysis E repo_path repo_name sonar_host_url =
     bind_io (logging INFO ''Performing code analysis on %s with SonarQube...'' [S repo_name]) (\<lambda>_.
     bind_io (check_sonarscanner_availability E) (\<lambda>scanner_ok.
     if \<not> scanner_ok then
       bind_io (logging ERROR
                  ''sonar-scanner is not available. Please install it and add it to your PATH.'' [])
         (\<lambda>_. return_io (JObject [(''status'', JString ''Code analysis failed.''),
                                   (''error'', JString ''sonar-scanner not available'')]))
     else
     bind_io (check_sonarqube_availability E sonar_host_url) (\<lambda>server_ok.
     if \<not> server_ok then
       bind_io (logging ERROR ''SonarQube server is not accessible at %s'' [S sonar_host_url])
         (\<lambda>_. return_io (JObject [(''status'', JString ''Code analysis failed.''),
                                   (''error'', JString ''SonarQube server not accessible'')]))
     else
       catch_io (scan_and_fetch E repo_path repo_name sonar_host_url)
         (\<lambda>e. case e of
                 CalledProcessError t \<Rightarrow>
                   bind_io (logging ERROR ''SonarQube analysis failed for %s: %s''
                              [S repo_name, S (str_exn e)])
                     (\<lambda>_. return_io (JObject [(''status'', JString ''Code analysis failed.''),
                                               (''error'', JString (str_exn e))]))
               | RequestException t \<Rightarrow>
                   bind_io (logging ERROR ''Failed to fetch SonarQube results for %s: %s''
                              [S repo_name, S (str_exn e)])
                     (\<lambda>_. return_io (JObject [(''status'', JString ''Failed to fetch analysis results.''),
                                               (''error'', JString (str_exn e))]))
               | _ \<Rightarrow> raise_io e))))"

subsection \<open>The document extractor (lines 93-108)\<close>

definition extract_readme :: "string \<Rightarrow> string io" where
  "extract_readme repo_path =
     (let readme_path = os_path_join repo_path ''README.md'' in
      bind_io (path_exists readme_path) (\<lambda>found.
      if found then open_read readme_path
      else return_io ''README.md not found.''))"

subsection \<open>Clone and analyse one repository (lines 110-151)\<close>

text \<open>The repository dict; the key \<^verbatim>\<open>private\<close> is the field \<open>is_private\<close>.\<close>

record repo =
  name :: string
  clone_url :: string
  is_private :: bool

text \<open>Lines 122-130: the URL handed to the clone. \<^verbatim>\<open>quote(None)\<close> raises TypeError.\<close>

definition auth_clone_url :: "env \<Rightarrow> repo \<Rightarrow> string option \<Rightarrow> exn + string" where
  "auth_clone_url E r github_token =
     (if is_private r then
        (case urlparse E (clone_url r) of
           Inl e \<Rightarrow> Inl e
         | Inr parsed_url \<Rightarrow>
             (case github_token of
                None \<Rightarrow> Inl (OtherException ''TypeError: quote_from_bytes() expected bytes'')
              | Some token \<Rightarrow>
                  Inr (urlunparse E
                         (parsed_url\<lparr>netloc := quote ''/'' token @ ''@'' @ netloc parsed_url\<rparr>))))
      else Inr (clone_url r))"

text \<open>The body of the \<^verbatim>\<open>try\<close> of lines 118-143.\<close>

definition clone_and_analyse :: "env \<Rightarrow> repo \<Rightarrow> string \<Rightarrow> string \<Rightarrow> string option \<Rightarrow> unit io" where
  "clone_and_analyse E r clone_directory sonar_host_url github_token =
     (let repo_name = name r;
          repo_path = os_path_join clone_directory repo_name in
      bind_io (path_exists repo_path) (\<lambda>found.
      bind_io (if found then rmtree repo_path else return_io ()) (\<lambda>_.
      bind_io (lift_io (auth_clone_url E r github_token)) (\<lambda>url.
      bind_io (repo_clone_from E url repo_path) (\<lambda>_.
      bind_io (logging INFO ''Successfully cloned %s.'' [S repo_name]) (\<lambda>_.
      bind_io (perform_code_analysis E repo_path repo_name sonar_host_url) (\<lambda>analysis_result.
      bind_io (extract_readme repo_path) (\<lambda>readme_content.
      bind_io (logging INFO ''Analysis result for %s: %s'' [S repo_name, J analysis_result]) (\<lambda>_.
      logging INFO ''README content for %s:\<newline>%s'' [S repo_name, S readme_content])))))))))"

definition process_repository :: "env \<Rightarrow> repo \<Rightarrow> string \<Rightarrow> string \<Rightarrow> string option \<Rightarrow> unit io" where
  "process_repository E r clone_directory sonar_host_url github_token =
     (let repo_name = name r in
      bind_io (logging INFO ''Processing repository: %s'' [S repo_name]) (\<lambda>_.
      catch_io (clone_and_analyse E r clone_directory sonar_host_url github_token)
        (\<lambda>e. case e of
                GitError t \<Rightarrow>
                  logging ERROR ''Git error while cloning %s: %s'' [S repo_name, S (str_exn e)]
              | CalledProcessError t \<Rightarrow>
                  logging ERROR ''Error during analysis or fetching results for %s: %s''
                    [S repo_name, S (str_exn e)]
              | RequestException t \<Rightarrow>
                  logging ERROR ''Error during analysis or fetching results for %s: %s''
                    [S repo_name, S (str_exn e)]
              | _ \<Rightarrow>
                  bind_io (logging ERROR ''Unexpected error with %s: %s'' [S repo_name, S (str_exn e)])
                    (\<lambda>_. logging ERROR ''Detailed traceback:'' [Traceback e]))))"

subsection \<open>The mirror publisher (lines 153-193)\<close>

text \<open>\<^verbatim>\<open>github_user\<close> (lines 168-169) is computed from the parsed path and never used;
  \<^verbatim>\<open>strip\<close>, \<^verbatim>\<open>split\<close> and \<^verbatim>\<open>[0]\<close> cannot raise there, \<^verbatim>\<open>urlparse\<close> can.
  The value \<^verbatim>\<open>push\<close> returns is dropped by the source. The result is \<open>None\<close> for
  Python's \<^verbatim>\<open>None\<close>.\<close>

definition gitlab_remote_url :: "env \<Rightarrow> json \<Rightarrow> exn + string" where
  "gitlab_remote_url E http_url_to_repo =
     json_replace http_url_to_repo ''https://'' (''https://oauth2:'' @ fmt_opt (GITLAB_TOKEN E) @ ''@'')"

definition publish :: "env \<Rightarrow> string \<Rightarrow> string \<Rightarrow> string \<Rightarrow> json io" where
  "publish E repo_path repo_name github_url =
     (let gitlab_api_url = GITLAB_URL E @ ''/api/v4/projects'';
          headers = [(''PRIVATE-TOKEN'', GITLAB_TOKEN E)];
          data = JObject [(''name'', JString repo_name), (''visibility'', JString ''private'')] in
      bind_io (lift_io (urlparse E github_url)) (\<lambda>parsed_url.
      bind_io (call_io (RequestsPost gitlab_api_url headers data)
                 (\<lambda>h. requests_post E h gitlab_api_url headers data)) (\<lambda>response.
      bind_io (raise_for_status response) (\<lambda>_.
      bind_io (lift_io (json_body response)) (\<lambda>gitlab_repo_info.
      bind_io (call_io (RepoOpen repo_path) (\<lambda>h. repo_open E h repo_path)) (\<lambda>_.
      bind_io (lift_io (json_getitem gitlab_repo_info ''http_url_to_repo'')) (\<lambda>u.
      bind_io (lift_io (gitlab_remote_url E u)) (\<lambda>remote_url.
      bind_io (call_io (CreateRemote repo_path ''gitlab'' remote_url)
                 (\<lambda>h. create_remote E h repo_path ''gitlab'' remote_url)) (\<lambda>_.
      bind_io (call_io (Push repo_path ''gitlab'' ''master'')
                 (\<lambda>h. push E h repo_path ''gitlab'' ''master'')) (\<lambda>_.
      lift_io (json_getitem gitlab_repo_info ''web_url'')))))))))))"

definition push_to_gitlab :: "env \<Rightarrow> string \<Rightarrow> string \<Rightarrow> string \<Rightarrow> json option io" where
  "push_to_gitlab E repo_path repo_name github_url =
     catch_io
       (bind_io (publish E repo_path repo_name github_url) (\<lambda>web_url. return_io (Some web_url)))
       (\<lambda>e. bind_io (logging ERROR (''Error pushing to GitLab: '' @ str_exn e) [])
               (\<lambda>_. return_io None))"

subsection \<open>The POST /process endpoint (lines 199-232)\<close>

datatype http_response = Response nat json
  \<comment> \<open>status and JSON body of the reply\<close>

definition repo_name_of_url :: "string \<Rightarrow> string" where
  "repo_name_of_url repo_url = py_replace ''.git'' [] (last (split_on CHR ''/'' repo_url))"

text \<open>The body of the \<^verbatim>\<open>try\<close> of lines 210-230.\<close>

definition process_repo_body :: "env \<Rightarrow> string \<Rightarrow> http_response io" where
  "process_repo_body E repo_url =
     (let repo_name = repo_name_of_url repo_url;
          clone_directory = ''temp_repos'';
          repo_path = os_path_join clone_directory repo_name in
      bind_io (process_repository E \<lparr>name = repo_name, clone_url = repo_url, is_private = False\<rparr>
                 clone_directory ''http://localhost:9000'' (GITHUB_TOKEN E)) (\<lambda>_.
      bind_io (perform_code_analysis E repo_path repo_name ''http://localhost:9000'') (\<lambda>analysis_result.
      bind_io (push_to_gitlab E repo_path repo_name repo_url) (\<lambda>gitlab_url.
      bind_io (extract_readme repo_path) (\<lambda>readme_content.
      bind_io (rmtree repo_path) (\<lambda>_.
      return_io (Response 200 (JObject
        [(''analysis_result'', analysis_result),
         (''readme_content'', JString readme_content),
         (''gitlab_url'', case gitlab_url of None \<Rightarrow> JNull | Some u \<Rightarrow> u)]))))))))"

text \<open>The argument is \<^verbatim>\<open>request.json['repo_url']\<close>. An exception of \<^verbatim>\<open>os.makedirs\<close>
  is raised outside the \<^verbatim>\<open>try\<close> and leaves the view function.\<close>

definition process_repo :: "env \<Rightarrow> string \<Rightarrow> http_response io" where
  "process_repo E repo_url =
     bind_io (makedirs ''temp_repos'') (\<lambda>_.
     catch_io (process_repo_body E repo_url)
       (\<lambda>e. return_io (Response 500 (JObject [(''error'', JString (str_exn e))]))))"

subsection \<open>Predicates on outcomes, traces and environments\<close>



text \<open>The calls a computation adds all satisfy \<open>P\<close>; it never removes a call.\<close>

definition emits :: "(call \<Rightarrow> bool) \<Rightarrow> 'a io \<Rightarrow> bool" where
  "emits P m = (\<forall>w. \<exists>xs. calls (snd (m w)) = calls w @ xs \<and> list_all P xs)"

text \<open>A computation that leaves the file system as it found it.\<close>

definition keeps_fs :: "'a io \<Rightarrow> bool" where
  "keeps_fs m = (\<forall>w. fs (snd (m w)) = fs w)"

text \<open>\<open>occurs_in s t\<close>: the text \<open>s\<close> occurs in \<open>t\<close>.\<close>

fun occurs_in :: "string \<Rightarrow> string \<Rightarrow> bool" where
  "occurs_in s [] = (s = [])"
| "occurs_in s (c # cs) = (prefix s (c # cs) \<or> occurs_in s cs)"

text \<open>The texts a log record prints as they are: its format string, its string
  arguments, and the message of an exception in a traceback.\<close>

fun arg_text :: "log_arg \<Rightarrow> string list" where
  "arg_text (S t) = [t]"
| "arg_text (J v) = []"
| "arg_text (Traceback e) = [str_exn e]"

fun log_texts :: "log_record \<Rightarrow> string list" where
  "log_texts (Log l fmt args) = fmt # concat (map arg_text args)"

definition log_exposes :: "string \<Rightarrow> log_record \<Rightarrow> bool" where
  "log_exposes secret r = list_ex (occurs_in secret) (log_texts r)"

text \<open>The authority of a URL as the transport reads it (RFC 3986, and \<^verbatim>\<open>_splitnetloc\<close>
  of urllib): what follows the first \<^verbatim>\<open>//\<close>, up to the next \<^verbatim>\<open>/\<close>, \<^verbatim>\<open>?\<close> or
  \<^verbatim>\<open>#\<close>.\<close>

fun after_slashes :: "string \<Rightarrow> string" where
  "after_slashes (a # b # cs) =
     (if a = CHR ''/'' \<and> b = CHR ''/'' then cs else after_slashes (b # cs))"
| "after_slashes cs = []"

definition url_authority :: "string \<Rightarrow> string" where
  "url_authority u = takeWhile (\<lambda>c. c \<notin> set ''/?#'') (after_slashes u)"

text \<open>What an observer without the credentials sees of a call: the URL of a clone, the
  headers of a POST and the URL of a new remote are blanked, everything else stays.\<close>

definition redact :: "call \<Rightarrow> call" where
  "redact c =
     (case c of
        CloneFrom u p \<Rightarrow> CloneFrom [] p
      | RequestsPost u hs d \<Rightarrow> RequestsPost u [] d
      | CreateRemote p n u \<Rightarrow> CreateRemote p n []
      | _ \<Rightarrow> c)"

text \<open>Two worlds with the same files, the same log and the same calls up to credentials.\<close>

definition same_view :: "world \<Rightarrow> world \<Rightarrow> bool" where
  "same_view w1 w2 =
     (fs w1 = fs w2 \<and> logs w1 = logs w2 \<and> map redact (calls w1) = map redact (calls w2))"

text \<open>An environment whose answers do not depend on the credentials shown to it: not on
  the blanked parts of earlier calls, not on the headers of a POST, not on the URL of a
  new remote.\<close>

definition credential_blind :: "env \<Rightarrow> bool" where
  "credential_blind E =
     (\<forall>h h'. map redact h = map redact h' \<longrightarrow>
        subprocess_run E h = subprocess_run E h' \<and>
        requests_get E h = requests_get E h' \<and>
        repo_open E h = repo_open E h' \<and>
        push E h = push E h' \<and>
        (\<forall>u hs hs' d. requests_post E h u hs d = requests_post E h' u hs' d) \<and>
        (\<forall>p n u u'. create_remote E h p n u = create_remote E h' p n u'))"

text \<open>The same for the clone of two given URLs.\<close>

definition clone_blind :: "env \<Rightarrow> string \<Rightarrow> string \<Rightarrow> bool" where
  "clone_blind E u1 u2 =
     (\<forall>h h' p. map redact h = map redact h' \<longrightarrow> clone_from E h u1 p = clone_from E h' u2 p)"

text \<open>Two computations that, from worlds with the same view, give the same result and
  worlds with the same view.\<close>

definition related :: "'a io \<Rightarrow> 'a io \<Rightarrow> bool" where
  "related m1 m2 =
     (\<forall>w1 w2. same_view w1 w2 \<longrightarrow>
        fst (m1 w1) = fst (m2 w2) \<and> same_view (snd (m1 w1)) (snd (m2 w2)))"

subsection \<open>Example environments\<close>

text \<open>The scenarios of the specification: the repository \<^verbatim>\<open>https://host/org/demo.git\<close>,
  an analysis server that answers with one issue, and a destination host that answers
  201 with the two URLs of the new project.\<close>

definition demo_url :: string where
  "demo_url = ''https://host/org/demo.git''"

definition demo_tree :: "string \<Rightarrow> node option" where
  "demo_tree = [''temp_repos/demo/README.md'' \<mapsto> File (Some ''# demo'')]"

definition demo_issues :: json where
  "demo_issues = JArray [JObject [(''rule'', JString ''S1234''), (''severity'', JString ''MAJOR'')]]"

definition demo_project :: json where
  "demo_project = JObject [(''http_url_to_repo'', JString ''https://gitlab.example/org/demo.git''),
                           (''web_url'', JString ''https://gitlab.example/org/demo'')]"

definition demo_env :: env where
  "demo_env =
     \<lparr>GITHUB_TOKEN = Some ''gh tok'',
      SONAR_TOKEN = Some ''sqtok'',
      GITLAB_TOKEN = Some ''gltok'',
      GITLAB_URL = ''https://gitlab.com'',
      GITHUB_USERNAME = None,
      subprocess_run = (\<lambda>h cmd. Inr ()),
      requests_get = (\<lambda>h u a. Inr \<lparr>status_code = 200, http_error_msg = [],
                                     json_body = Inr (JObject [(''issues'', demo_issues)])\<rparr>),
      requests_post = (\<lambda>h u hs d. Inr \<lparr>status_code = 201, http_error_msg = [],
                                         json_body = Inr demo_project\<rparr>),
      clone_from = (\<lambda>h u p. Inr demo_tree),
      repo_open = (\<lambda>h p. Inr ()),
      create_remote = (\<lambda>h p n u. Inr ()),
      push = (\<lambda>h p n b. Inr [PushInfo False ''[new branch]'']),
      urlparse = (\<lambda>u. if u = demo_url
                       then Inr \<lparr>scheme = ''https'', netloc = ''host'', path = ''/org/demo.git'',
                                 params = [], query = [], fragment = []\<rparr>
                       else Inl (OtherException ''ValueError'')),
      urlunparse = (\<lambda>p. scheme p @ ''://'' @ netloc p @ path p)\<rparr>"

definition demo_repo :: repo where
  "demo_repo = \<lparr>name = ''demo'', clone_url = demo_url, is_private = True\<rparr>"

definition empty_world :: world where
  "empty_world = \<lparr>fs = Map.empty, calls = [], logs = []\<rparr>"

definition stale_world :: world where
  "stale_world = \<lparr>fs = [''temp_repos'' \<mapsto> Dir, ''temp_repos/demo'' \<mapsto> Dir,
                        ''temp_repos/demo/old.txt'' \<mapsto> File (Some ''old'')],
                  calls = [], logs = []\<rparr>"



text \<open>The probe passes and the scanner exits with status 1.\<close>

definition env_scanner_fails :: env where
  "env_scanner_fails =
     demo_env\<lparr>subprocess_run :=
       (\<lambda>h cmd. if cmd = [''sonar-scanner'', ''-v''] then Inr ()
                 else Inl (CalledProcessError ''returned non-zero exit status 1.''))\<rparr>"

text \<open>The clone fails, and GitPython's message quotes the command line it ran.\<close>

definition env_clone_fails :: env where
  "env_clone_fails =
     demo_env\<lparr>clone_from := (\<lambda>h u p. Inl (GitError (''cmdline: git clone -v '' @ u @ '' '' @ p))),
              repo_open := (\<lambda>h p. Inl (GitError (''NoSuchPathError: '' @ p)))\<rparr>"

text \<open>The destination host creates the project and then rejects the pushed ref (a
  pre-receive hook declines it): \<^verbatim>\<open>push\<close> returns a \<^verbatim>\<open>PushInfo\<close> with the error flag
  and does not raise.\<close>

definition env_push_rejected :: env where
  "env_push_rejected =
     demo_env\<lparr>push :=
       (\<lambda>h p n b. Inr [PushInfo True ''[remote rejected] (pre-receive hook declined)''])\<rparr>"

text \<open>The destination host refuses to create the project.\<close>

definition env_gitlab_refuses :: env where
  "env_gitlab_refuses =
     demo_env\<lparr>requests_post :=
       (\<lambda>h u hs d. Inr \<lparr>status_code = 401, http_error_msg = ''401 Client Error: Unauthorized'',
                         json_body = Inr (JObject [])\<rparr>)\<rparr>"

section \<open>Properties\<close>

lemmas io_defs = return_io_def raise_io_def bind_io_def catch_io_def lift_io_def logging_def
  call_io_def

lemmas analysis_defs = perform_code_analysis_def check_sonarscanner_availability_def
  check_sonarqube_availability_def scan_and_fetch_def raise_for_status_def

subsection \<open>The analysis stage\<close>

text \<open>
  C6. When both probes pass and the scanner subprocess exits with a non-zero status
  (\<^verbatim>\<open>subprocess.run(..., check=True)\<close> raises CalledProcessError), the stage makes
  exactly three outside calls, the two probes and the scanner: the issue-search query is
  not among them. The outcome has the status of failure and carries the text of the
  process error, which is also logged.
\<close>

theorem scanner_failure_stops_before_query:
  assumes "subprocess_run E (calls w) [''sonar-scanner'', ''-v''] = Inr ()"
    and "requests_get E (calls w @ [SubprocessRun [''sonar-scanner'', ''-v'']])
           (sonar_host_url @ ''/api/system/status'') None = Inr r"
    and "status_code r = 200"
    and "subprocess_run E
           (calls w @ [SubprocessRun [''sonar-scanner'', ''-v''],
                       RequestsGet (sonar_host_url @ ''/api/system/status'') None])
           (sonar_scanner_cmd E repo_path repo_name sonar_host_url) = Inl (CalledProcessError t)"
  shows "perform_code_analysis E repo_path repo_name sonar_host_url w =
           (Inr (JObject [(''status'', JString ''Code analysis failed.''), (''error'', JString t)]),
            w\<lparr>calls := calls w @ [SubprocessRun [''sonar-scanner'', ''-v''],
                       RequestsGet (sonar_host_url @ ''/api/system/status'') None,
                       SubprocessRun (sonar_scanner_cmd E repo_path repo_name sonar_host_url)],
              logs := logs w @ [Log INFO ''Performing code analysis on %s with SonarQube...'' [S repo_name],
                                Log ERROR ''SonarQube analysis failed for %s: %s'' [S repo_name, S t]]\<rparr>)"
  using assms
  by (simp add: analysis_defs io_defs Let_def)

theorem scanner_failure_stops_before_query_witness:
  "fst (perform_code_analysis env_scanner_fails ''temp_repos/demo'' ''demo'' ''http://localhost:9000''
          empty_world) =
     Inr (JObject [(''status'', JString ''Code analysis failed.''),
                   (''error'', JString ''returned non-zero exit status 1.'')]) \<and>
   calls (snd (perform_code_analysis env_scanner_fails ''temp_repos/demo'' ''demo''
                 ''http://localhost:9000'' empty_world)) =
     [SubprocessRun [''sonar-scanner'', ''-v''],
      RequestsGet ''http://localhost:9000/api/system/status'' None,
      SubprocessRun [''sonar-scanner'', ''-Dsonar.projectKey=default%2Fdemo'',
                     ''-Dsonar.sources=temp_repos/demo'', ''-Dsonar.host.url=http://localhost:9000'',
                     ''-Dsonar.login=sqtok'']]"
  using scanner_failure_stops_before_query [of env_scanner_fails empty_world
      "''http://localhost:9000''"
      "\<lparr>status_code = 200, http_error_msg = [], json_body = Inr (JObject [(''issues'', demo_issues)])\<rparr>"
      "''temp_repos/demo''" "''demo''" "''returned non-zero exit status 1.''"]
  by (simp add: env_scanner_fails_def demo_env_def empty_world_def sonar_scanner_cmd_def
        project_key_def quote_def quote_byte_def always_safe_def hex_digit_def upper_hex_def fmt_opt_def)
















subsection \<open>The mirror publisher and the endpoint\<close>

text \<open>Unfolding every definition evaluates the model on a concrete environment.\<close>

lemmas eval_defs = io_defs analysis_defs Let_def publish_def push_to_gitlab_def
  process_repo_def process_repo_body_def process_repository_def clone_and_analyse_def
  auth_clone_url_def extract_readme_def path_exists_def open_read_def rmtree_def makedirs_def
  repo_clone_from_def gitlab_remote_url_def json_replace_def json_getitem_def json_get_def
  sonar_scanner_cmd_def sonar_api_url_def project_key_def quote_def quote_byte_def
  always_safe_def hex_digit_def upper_hex_def fmt_opt_def os_path_join_def inside_def repo_name_of_url_def
  py_replace.simps demo_env_def demo_url_def demo_tree_def demo_issues_def demo_project_def
  demo_repo_def empty_world_def stale_world_def


lemma push_to_gitlab_eq:
  "push_to_gitlab E rp rn url w =
     (case publish E rp rn url w of
        (Inr web, w') \<Rightarrow> (Inr (Some web), w')
      | (Inl e, w') \<Rightarrow> (Inr None, w'\<lparr>logs := logs w' @ [Log ERROR (''Error pushing to GitLab: '' @ str_exn e) []]\<rparr>))"
  by (simp add: push_to_gitlab_def io_defs split: sum.splits prod.splits)


lemma publish_keeps_fs: "fs (snd (publish E rp rn url w)) = fs w"
  by (simp add: publish_def raise_for_status_def io_defs Let_def
      split: sum.splits if_splits prod.splits)

lemma extract_readme_fs:
  "fs w = fs w' \<Longrightarrow> fst (extract_readme rp w) = fst (extract_readme rp w')"
  by (simp add: extract_readme_def path_exists_def open_read_def io_defs Let_def
      split: sum.splits if_splits prod.splits option.splits node.splits)

lemma extract_readme_keeps_fs: "fs (snd (extract_readme rp w)) = fs w"
  by (simp add: extract_readme_def path_exists_def open_read_def io_defs Let_def
      split: sum.splits if_splits prod.splits option.splits node.splits)

lemma process_repository_returns: "fst (process_repository E r d s tok w) = Inr ()"
  by (simp add: process_repository_def io_defs Let_def split: sum.splits prod.splits exn.splits)




text \<open>
  What holds of the soft failure. When any step of the publisher raises, whatever the
  exception, the publisher catches it and returns \<^verbatim>\<open>None\<close>; and the endpoint still
  answers 200 with the analysis outcome computed before the mirror step, the README read
  from the working copy as it was before the mirror step, and a null \<^verbatim>\<open>gitlab_url\<close>,
  provided the README can be read and the working copy exists for the final clean-up.
\<close>

lemma mirror_exception_is_soft:
  assumes "makedirs ''temp_repos'' w = (Inr (), w0)"
    and "snd (process_repository E
               \<lparr>name = repo_name_of_url url, clone_url = url, is_private = False\<rparr>
               ''temp_repos'' ''http://localhost:9000'' (GITHUB_TOKEN E) w0) = w1"
    and "perform_code_analysis E (os_path_join ''temp_repos'' (repo_name_of_url url))
           (repo_name_of_url url) ''http://localhost:9000'' w1 = (Inr a, w2)"
    and "fst (publish E (os_path_join ''temp_repos'' (repo_name_of_url url))
                (repo_name_of_url url) url w2) = Inl e"
    and "fst (extract_readme (os_path_join ''temp_repos'' (repo_name_of_url url)) w2) = Inr readme"
    and "fs w2 (os_path_join ''temp_repos'' (repo_name_of_url url)) = Some Dir"
  shows "fst (push_to_gitlab E (os_path_join ''temp_repos'' (repo_name_of_url url))
                (repo_name_of_url url) url w2) = Inr None \<and>
         fst (process_repo E url w) =
           Inr (Response 200 (JObject [(''analysis_result'', a),
                                       (''readme_content'', JString readme),
                                       (''gitlab_url'', JNull)]))"
proof -
  let ?rp = "os_path_join ''temp_repos'' (repo_name_of_url url)"
  let ?rn = "repo_name_of_url url"
  obtain w3 where pub: "publish E ?rp ?rn url w2 = (Inl e, w3)"
    using assms(4) by (cases "publish E ?rp ?rn url w2") auto
  have fs3: "fs w3 = fs w2"
    using publish_keeps_fs [of E ?rp ?rn url w2] pub by simp
  let ?w4 = "w3\<lparr>logs := logs w3 @ [Log ERROR (''Error pushing to GitLab: '' @ str_exn e) []]\<rparr>"
  have push: "push_to_gitlab E ?rp ?rn url w2 = (Inr None, ?w4)"
    by (simp add: push_to_gitlab_eq pub)
  have fs4: "fs ?w4 = fs w2" using fs3 by simp
  obtain w5 where ex: "extract_readme ?rp ?w4 = (Inr readme, w5)"
    using extract_readme_fs [OF fs4, of ?rp] assms(5)
    by (cases "extract_readme ?rp ?w4") auto
  have fs5: "fs w5 = fs w2"
    using extract_readme_keeps_fs [of ?rp ?w4] ex fs4 by simp
  obtain w6 where rm: "rmtree ?rp w5 = (Inr (), w6)"
    using assms(6) fs5 by (simp add: rmtree_def Let_def)
  have pr: "process_repository E \<lparr>name = ?rn, clone_url = url, is_private = False\<rparr>
               ''temp_repos'' ''http://localhost:9000'' (GITHUB_TOKEN E) w0 = (Inr (), w1)"
    using assms(2) process_repository_returns
    by (metis prod.collapse)
  have body: "fst (process_repo_body E url w0) =
           Inr (Response 200 (JObject [(''analysis_result'', a),
                                       (''readme_content'', JString readme),
                                       (''gitlab_url'', JNull)]))"
    using pr assms(3) push ex rm
    by (simp add: process_repo_body_def bind_io_def return_io_def Let_def split: prod.splits sum.splits)
  have "fst (process_repo E url w) = fst (process_repo_body E url w0)"
    using assms(1) body
    by (cases "process_repo_body E url w0")
       (auto simp add: process_repo_def bind_io_def catch_io_def return_io_def)
  with body push show ?thesis by simp
qed

lemma mirror_exception_is_soft_example:
  "fst (publish env_gitlab_refuses ''temp_repos/demo'' ''demo'' demo_url
          (snd (perform_code_analysis env_gitlab_refuses ''temp_repos/demo'' ''demo''
                  ''http://localhost:9000''
                  (snd (process_repository env_gitlab_refuses
                          \<lparr>name = ''demo'', clone_url = demo_url, is_private = False\<rparr>
                          ''temp_repos'' ''http://localhost:9000'' (GITHUB_TOKEN env_gitlab_refuses)
                          (snd (makedirs ''temp_repos'' empty_world))))))) =
     Inl (RequestException ''401 Client Error: Unauthorized'') \<and>
   fst (process_repo env_gitlab_refuses demo_url empty_world) =
     Inr (Response 200 (JObject
       [(''analysis_result'',
         JObject [(''status'', JString ''Code analysis completed successfully.''),
                  (''issues'', demo_issues)]),
        (''readme_content'', JString ''# demo''),
        (''gitlab_url'', JNull)]))"
proof -
  have n: "repo_name_of_url demo_url = ''demo''"
    by (simp add: repo_name_of_url_def demo_url_def py_replace.simps)
  have j: "os_path_join ''temp_repos'' ''demo'' = ''temp_repos/demo''"
    by (simp add: os_path_join_def)
  let ?E = env_gitlab_refuses
  let ?w0 = "snd (makedirs ''temp_repos'' empty_world)"
  let ?w1 = "snd (process_repository ?E \<lparr>name = ''demo'', clone_url = demo_url, is_private = False\<rparr>
                    ''temp_repos'' ''http://localhost:9000'' (GITHUB_TOKEN ?E) ?w0)"
  let ?w2 = "snd (perform_code_analysis ?E ''temp_repos/demo'' ''demo'' ''http://localhost:9000'' ?w1)"
  have a0: "makedirs ''temp_repos'' empty_world = (Inr (), ?w0)"
    by (simp add: makedirs_def empty_world_def Let_def)
  have a2: "perform_code_analysis ?E ''temp_repos/demo'' ''demo'' ''http://localhost:9000'' ?w1 =
              (Inr (JObject [(''status'', JString ''Code analysis completed successfully.''),
                             (''issues'', demo_issues)]), ?w2)"
    by (simp add: eval_defs env_gitlab_refuses_def)
  have a3: "fst (publish ?E ''temp_repos/demo'' ''demo'' demo_url ?w2) =
              Inl (RequestException ''401 Client Error: Unauthorized'')"
    by (simp add: eval_defs env_gitlab_refuses_def)
  have a4: "fst (extract_readme ''temp_repos/demo'' ?w2) = Inr ''# demo''"
    by (simp add: eval_defs env_gitlab_refuses_def)
  have a5: "fs ?w2 ''temp_repos/demo'' = Some Dir"
    by (simp add: eval_defs env_gitlab_refuses_def)
  from mirror_exception_is_soft [of empty_world ?w0 ?E demo_url ?w1 _ ?w2, unfolded n j,
      OF a0 refl a2 a3 a4 a5] a3
  show ?thesis by simp
qed

text \<open>
  C8 on a rejected push. The claim counts a push rejection among the failures that leave
  the result empty. \<^verbatim>\<open>origin.push\<close> does not raise for a rejected ref and line 188
  drops the list it returns, so nothing reaches the handler of line 191: with a
  destination host that rejects the ref, the publisher logs nothing and the endpoint
  answers with the URL of a project that holds no commit.
\<close>

theorem rejected_push_reported_as_mirrored:
  "fst (process_repo env_push_rejected demo_url empty_world) =
     Inr (Response 200 (JObject
       [(''analysis_result'',
         JObject [(''status'', JString ''Code analysis completed successfully.''),
                  (''issues'', demo_issues)]),
        (''readme_content'', JString ''# demo''),
        (''gitlab_url'', JString ''https://gitlab.example/org/demo'')])) \<and>
   logs (snd (push_to_gitlab env_push_rejected ''temp_repos/demo'' ''demo'' demo_url empty_world)) = []"
  by (simp add: eval_defs env_push_rejected_def)

subsection \<open>Calls made and files kept\<close>



lemma emits_return: "emits P (return_io x)"
  by (simp add: emits_def return_io_def)

lemma emits_raise: "emits P (raise_io e)"
  by (simp add: emits_def raise_io_def)

lemma emits_lift: "emits P (lift_io r)"
  by (simp add: emits_def lift_io_def)

lemma emits_logging: "emits P (logging l fmt args)"
  by (simp add: emits_def logging_def)

lemma emits_call: "P c \<Longrightarrow> emits P (call_io c oracle)"
  by (simp add: emits_def call_io_def)

lemma emits_bind:
  assumes "emits P m" and "\<And>x w. fst (m w) = Inr x \<Longrightarrow> emits P (f x)"
  shows "emits P (bind_io m f)"
  unfolding emits_def
proof
  fix w
  obtain r w1 where m: "m w = (r, w1)" by (cases "m w")
  from assms(1) m obtain xs where xs: "calls w1 = calls w @ xs" "list_all P xs"
    unfolding emits_def by (metis snd_conv)
  show "\<exists>ys. calls (snd (bind_io m f w)) = calls w @ ys \<and> list_all P ys"
  proof (cases r)
    case (Inl e)
    with m xs show ?thesis by (simp add: bind_io_def)
  next
    case (Inr x)
    with m have "fst (m w) = Inr x" by simp
    from assms(2) [OF this] obtain zs where "calls (snd (f x w1)) = calls w1 @ zs" "list_all P zs"
      unfolding emits_def by blast
    with m xs Inr show ?thesis by (simp add: bind_io_def)
  qed
qed

lemma emits_catch:
  assumes "emits P m" and "\<And>e. emits P (h e)"
  shows "emits P (catch_io m h)"
  unfolding emits_def
proof
  fix w
  obtain r w1 where m: "m w = (r, w1)" by (cases "m w")
  from assms(1) m obtain xs where xs: "calls w1 = calls w @ xs" "list_all P xs"
    unfolding emits_def by (metis snd_conv)
  show "\<exists>ys. calls (snd (catch_io m h w)) = calls w @ ys \<and> list_all P ys"
  proof (cases r)
    case (Inr x)
    with m xs show ?thesis by (simp add: catch_io_def)
  next
    case (Inl e)
    from assms(2) [of e] obtain zs where "calls (snd (h e w1)) = calls w1 @ zs" "list_all P zs"
      unfolding emits_def by blast
    with m xs Inl show ?thesis by (simp add: catch_io_def)
  qed
qed

lemma emits_path_exists: "P (PathExists p) \<Longrightarrow> emits P (path_exists p)"
  by (simp add: emits_def path_exists_def)

lemma emits_open_read: "P (OpenRead p) \<Longrightarrow> emits P (open_read p)"
  by (simp add: emits_def open_read_def Let_def split: option.splits node.splits)

lemma emits_rmtree: "P (Rmtree p) \<Longrightarrow> emits P (rmtree p)"
  by (simp add: emits_def rmtree_def Let_def split: option.splits node.splits)

lemma emits_makedirs: "P (Makedirs p) \<Longrightarrow> emits P (makedirs p)"
  by (simp add: emits_def makedirs_def Let_def split: option.splits node.splits)

lemma emits_clone: "P (CloneFrom u p) \<Longrightarrow> emits P (repo_clone_from E u p)"
  by (simp add: emits_def repo_clone_from_def Let_def split: sum.splits)

lemmas emits_intros = emits_return emits_raise emits_lift emits_logging emits_call emits_catch
  emits_path_exists emits_open_read emits_rmtree emits_makedirs emits_clone

lemma emits_analysis:
  assumes "\<And>cmd. P (SubprocessRun cmd)" and "\<And>u a. P (RequestsGet u a)"
  shows "emits P (perform_code_analysis E rp rn u)"
  unfolding analysis_defs Let_def
  by (auto intro!: emits_bind emits_intros assms split: exn.splits)

lemma emits_extract_readme:
  assumes "\<And>p. P (PathExists p)" and "\<And>p. P (OpenRead p)"
  shows "emits P (extract_readme rp)"
  unfolding extract_readme_def Let_def
  by (auto intro!: emits_bind emits_intros assms)


lemma emits_member:
  assumes "emits P m" and "c \<in> set (drop (length (calls w)) (calls (snd (m w))))"
  shows "P c"
proof -
  from assms(1) obtain xs where "calls (snd (m w)) = calls w @ xs" "list_all P xs"
    unfolding emits_def by blast
  with assms(2) show ?thesis by (simp add: list_all_iff)
qed

lemma fst_lift_io: "fst (lift_io r w) = r"
  by (simp add: lift_io_def)

lemma emits_clone_and_analyse:
  "emits (\<lambda>c. \<forall>u p. c = CloneFrom u p \<longrightarrow>
                 auth_clone_url E r tok = Inr u \<and> p = os_path_join d (name r))
     (clone_and_analyse E r d s tok)"
  unfolding clone_and_analyse_def Let_def
  by (auto intro!: emits_bind emits_intros emits_analysis emits_extract_readme
      simp add: fst_lift_io)

lemma emits_process_repository:
  "emits (\<lambda>c. \<forall>u p. c = CloneFrom u p \<longrightarrow>
                 auth_clone_url E r tok = Inr u \<and> p = os_path_join d (name r))
     (process_repository E r d s tok)"
  unfolding process_repository_def Let_def
  by (auto intro!: emits_bind emits_intros emits_clone_and_analyse split: exn.splits)

lemma hex_digit_mem: "hex_digit n \<in> set upper_hex"
  unfolding hex_digit_def by (rule nth_mem) (simp add: upper_hex_def)

lemma quote_byte_chars:
  "c \<in> set (quote_byte safe x) \<Longrightarrow>
     always_safe c \<or> c \<in> set safe \<or> c = CHR ''%'' \<or> c \<in> set upper_hex"
  using hex_digit_mem by (auto simp add: quote_byte_def split: if_splits)

lemma quote_chars:
  "c \<in> set (quote safe s) \<Longrightarrow>
     always_safe c \<or> c \<in> set safe \<or> c = CHR ''%'' \<or> c \<in> set upper_hex"
  unfolding quote_def using quote_byte_chars by fastforce



lemma emits_mono:
  assumes "emits P m" and "\<And>c. P c \<Longrightarrow> Q c"
  shows "emits Q m"
  using assms unfolding emits_def list_all_iff by metis

lemma keeps_return: "keeps_fs (return_io x)"
  by (simp add: keeps_fs_def return_io_def)

lemma keeps_raise: "keeps_fs (raise_io e)"
  by (simp add: keeps_fs_def raise_io_def)

lemma keeps_lift: "keeps_fs (lift_io r)"
  by (simp add: keeps_fs_def lift_io_def)

lemma keeps_logging: "keeps_fs (logging l fmt args)"
  by (simp add: keeps_fs_def logging_def)

lemma keeps_call: "keeps_fs (call_io c oracle)"
  by (simp add: keeps_fs_def call_io_def)

lemma keeps_path_exists: "keeps_fs (path_exists p)"
  by (simp add: keeps_fs_def path_exists_def)

lemma keeps_open_read: "keeps_fs (open_read p)"
  by (simp add: keeps_fs_def open_read_def Let_def split: option.splits node.splits)

lemma keeps_bind:
  assumes "keeps_fs m" and "\<And>x. keeps_fs (f x)"
  shows "keeps_fs (bind_io m f)"
  unfolding keeps_fs_def
proof
  fix w
  obtain r w1 where m: "m w = (r, w1)" by (cases "m w")
  with assms(1) have "fs w1 = fs w" unfolding keeps_fs_def by (metis snd_conv)
  with m assms(2) show "fs (snd (bind_io m f w)) = fs w"
    by (cases r) (simp_all add: bind_io_def keeps_fs_def)
qed

lemma keeps_catch:
  assumes "keeps_fs m" and "\<And>e. keeps_fs (h e)"
  shows "keeps_fs (catch_io m h)"
  unfolding keeps_fs_def
proof
  fix w
  obtain r w1 where m: "m w = (r, w1)" by (cases "m w")
  with assms(1) have "fs w1 = fs w" unfolding keeps_fs_def by (metis snd_conv)
  with m assms(2) show "fs (snd (catch_io m h w)) = fs w"
    by (cases r) (simp_all add: catch_io_def keeps_fs_def)
qed

lemmas keeps_intros = keeps_return keeps_raise keeps_lift keeps_logging keeps_call
  keeps_path_exists keeps_open_read keeps_bind keeps_catch

lemma keeps_analysis: "keeps_fs (perform_code_analysis E rp rn u)"
  unfolding analysis_defs Let_def
  by (auto intro!: keeps_intros split: exn.splits)

lemma keeps_extract_readme: "keeps_fs (extract_readme rp)"
  unfolding extract_readme_def Let_def
  by (auto intro!: keeps_intros)

subsection \<open>The cloner\<close>

text \<open>
  The shape of the URL. Every clone that \<^verbatim>\<open>process_repository\<close> attempts goes to the
  working-copy path of the descriptor. For a private descriptor the URL handed to it is
  \<^verbatim>\<open>urlunparse\<close> of the parsed clone URL in which only the authority has changed, to
  \<^verbatim>\<open>quote(token)\<close>, \<^verbatim>\<open>@\<close> and the old authority, with scheme, path, params, query
  and fragment as parsed; the quoted token consists of unreserved characters, \<^verbatim>\<open>/\<close>
  (which \<^verbatim>\<open>quote\<close> keeps by default), \<^verbatim>\<open>%\<close> and upper-case hexadecimal digits.
  For a descriptor that is not private the URL is the clone URL itself.
\<close>

lemma clone_url_shape:
  assumes "CloneFrom u p \<in> set (drop (length (calls w))
                                   (calls (snd (process_repository E r d s tok w))))"
  shows "p = os_path_join d (name r) \<and>
         (if is_private r
          then \<exists>parsed token.
                 urlparse E (clone_url r) = Inr parsed \<and> tok = Some token \<and>
                 u = urlunparse E \<lparr>scheme = scheme parsed,
                                   netloc = quote ''/'' token @ ''@'' @ netloc parsed,
                                   path = path parsed, params = params parsed,
                                   query = query parsed, fragment = fragment parsed\<rparr> \<and>
                 (\<forall>c \<in> set (quote ''/'' token).
                    always_safe c \<or> c = CHR ''/'' \<or> c = CHR ''%'' \<or> c \<in> set upper_hex)
          else u = clone_url r)"
proof -
  from emits_member [OF emits_process_repository assms]
  have a: "auth_clone_url E r tok = Inr u" and p: "p = os_path_join d (name r)" by auto
  show ?thesis
  proof (cases "is_private r")
    case False
    with a p show ?thesis by (simp add: auth_clone_url_def)
  next
    case True
    with a obtain parsed token where
      prs: "urlparse E (clone_url r) = Inr parsed" and tk: "tok = Some token" and
      u: "u = urlunparse E (parsed\<lparr>netloc := quote ''/'' token @ ''@'' @ netloc parsed\<rparr>)"
      by (auto simp add: auth_clone_url_def split: sum.splits option.splits)
    have req: "parsed\<lparr>netloc := quote ''/'' token @ ''@'' @ netloc parsed\<rparr> =
        \<lparr>scheme = scheme parsed, netloc = quote ''/'' token @ ''@'' @ netloc parsed,
         path = path parsed, params = params parsed,
         query = query parsed, fragment = fragment parsed\<rparr>"
      by simp
    have u': "u = urlunparse E \<lparr>scheme = scheme parsed,
                                  netloc = quote ''/'' token @ ''@'' @ netloc parsed,
                                  path = path parsed, params = params parsed,
                                  query = query parsed, fragment = fragment parsed\<rparr>"
      using u by (simp only: req)
    have ch: "\<forall>c \<in> set (quote ''/'' token).
                    always_safe c \<or> c = CHR ''/'' \<or> c = CHR ''%'' \<or> c \<in> set upper_hex"
      using quote_chars [of _ "''/''" token] by auto
    have "\<exists>parsed token.
                 urlparse E (clone_url r) = Inr parsed \<and> tok = Some token \<and>
                 u = urlunparse E \<lparr>scheme = scheme parsed,
                                   netloc = quote ''/'' token @ ''@'' @ netloc parsed,
                                   path = path parsed, params = params parsed,
                                   query = query parsed, fragment = fragment parsed\<rparr> \<and>
                 (\<forall>c \<in> set (quote ''/'' token).
                    always_safe c \<or> c = CHR ''/'' \<or> c = CHR ''%'' \<or> c \<in> set upper_hex)"
      using prs tk u' ch by blast
    with True p show ?thesis by (simp only: if_True)
  qed
qed

lemma clone_url_shape_example:
  "CloneFrom ''https://gh%20tok@host/org/demo.git'' ''temp_repos/demo''
     \<in> set (drop (length (calls stale_world))
               (calls (snd (process_repository demo_env demo_repo ''temp_repos''
                              ''http://localhost:9000'' (Some ''gh tok'') stale_world)))) \<and>
   is_private demo_repo \<and>
   urlparse demo_env (clone_url demo_repo) =
     Inr \<lparr>scheme = ''https'', netloc = ''host'', path = ''/org/demo.git'',
          params = [], query = [], fragment = []\<rparr> \<and>
   ''https://gh%20tok@host/org/demo.git'' =
     urlunparse demo_env \<lparr>scheme = ''https'', netloc = quote ''/'' ''gh tok'' @ ''@'' @ ''host'',
                           path = ''/org/demo.git'', params = [], query = [], fragment = []\<rparr>"
proof -
  have h: "CloneFrom ''https://gh%20tok@host/org/demo.git'' ''temp_repos/demo''
     \<in> set (drop (length (calls stale_world))
               (calls (snd (process_repository demo_env demo_repo ''temp_repos''
                              ''http://localhost:9000'' (Some ''gh tok'') stale_world))))"
    by (simp add: eval_defs)
  from clone_url_shape [OF h] h show ?thesis
    by (simp add: eval_defs)
qed

text \<open>
  C4 on a token with a slash. Line 126 calls \<^verbatim>\<open>quote\<close> with its default
  \<^verbatim>\<open>safe='/'\<close>, where line 67 passes \<^verbatim>\<open>safe=''\<close>: a \<^verbatim>\<open>/\<close> in the token is not
  escaped. With the token \<^verbatim>\<open>a/b\<close> the URL handed to the clone is
  \<^verbatim>\<open>https://a/b@host/org/demo.git\<close>, whose authority is \<^verbatim>\<open>a\<close> and no longer
  \<^verbatim>\<open>host\<close>, and whose path is no longer the path of the clone URL; with
  \<^verbatim>\<open>safe=''\<close> the token would have become \<^verbatim>\<open>a%2Fb\<close>.
\<close>

theorem token_with_slash_is_not_escaped:
  "quote ''/'' ''a/b'' = ''a/b'' \<and>
   CloneFrom ''https://a/b@host/org/demo.git'' ''temp_repos/demo''
     \<in> set (calls (snd (process_repository demo_env demo_repo ''temp_repos''
                         ''http://localhost:9000'' (Some ''a/b'') empty_world))) \<and>
   url_authority ''https://a/b@host/org/demo.git'' = ''a'' \<and>
   url_authority (clone_url demo_repo) = ''host'' \<and>
   quote [] ''a/b'' = ''a%2Fb''"
  by (simp add: eval_defs url_authority_def)

text \<open>
  C7. When a directory exists at the working-copy path, the cloner removes it with
  \<^verbatim>\<open>shutil.rmtree\<close> before it clones: its first three calls are the existence check,
  the removal and the clone, in this order. When that clone succeeds, what lies at or
  below the path at the end of the run, and so throughout the analysis and the document
  extraction, which leave the files alone, is exactly the tree the clone wrote: no file
  of an earlier run is left.
\<close>

theorem stale_working_copy_is_deleted_before_clone:
  assumes "fs w (os_path_join d (name r)) = Some Dir"
    and "auth_clone_url E r tok = Inr u"
    and "clone_from E (calls w @ [PathExists (os_path_join d (name r)),
                                  Rmtree (os_path_join d (name r))])
           u (os_path_join d (name r)) = Inr tree"
  shows "take 3 (drop (length (calls w)) (calls (snd (process_repository E r d s tok w)))) =
           [PathExists (os_path_join d (name r)), Rmtree (os_path_join d (name r)),
            CloneFrom u (os_path_join d (name r))] \<and>
         (\<forall>k. inside (os_path_join d (name r)) k \<longrightarrow>
              fs (snd (process_repository E r d s tok w)) k =
                (if k = os_path_join d (name r) then Some Dir else tree k))"
proof -
  let ?p = "os_path_join d (name r)"
  define K where "K =
      bind_io (logging INFO ''Successfully cloned %s.'' [S (name r)]) (\<lambda>_.
      bind_io (perform_code_analysis E ?p (name r) s) (\<lambda>analysis_result.
      bind_io (extract_readme ?p) (\<lambda>readme_content.
      bind_io (logging INFO ''Analysis result for %s: %s'' [S (name r), J analysis_result]) (\<lambda>_.
      logging INFO ''README content for %s:\<newline>%s'' [S (name r), S readme_content]))))"
  define H where "H = (\<lambda>e. case e of
                GitError t \<Rightarrow>
                  logging ERROR ''Git error while cloning %s: %s'' [S (name r), S (str_exn e)]
              | CalledProcessError t \<Rightarrow>
                  logging ERROR ''Error during analysis or fetching results for %s: %s''
                    [S (name r), S (str_exn e)]
              | RequestException t \<Rightarrow>
                  logging ERROR ''Error during analysis or fetching results for %s: %s''
                    [S (name r), S (str_exn e)]
              | _ \<Rightarrow>
                  bind_io (logging ERROR ''Unexpected error with %s: %s'' [S (name r), S (str_exn e)])
                    (\<lambda>_. logging ERROR ''Detailed traceback:'' [Traceback e]))"
  define w3 where "w3 = w\<lparr>logs := logs w @ [Log INFO ''Processing repository: %s'' [S (name r)]],
                          calls := calls w @ [PathExists ?p, Rmtree ?p, CloneFrom u ?p],
                          fs := (\<lambda>k. if k = ?p then Some Dir
                                      else if inside ?p k \<and> tree k \<noteq> None then tree k
                                      else if inside ?p k then None else fs w k)\<rparr>"
  have run: "process_repository E r d s tok w = catch_io K H w3"
    unfolding process_repository_def clone_and_analyse_def Let_def
      K_def [symmetric] H_def [symmetric]
    using assms
    by (simp add: w3_def Let_def bind_io_def catch_io_def logging_def lift_io_def
        path_exists_def rmtree_def repo_clone_from_def cong del: if_weak_cong)
  have kK: "keeps_fs (catch_io K H)"
    unfolding K_def H_def
    by (auto intro!: keeps_intros keeps_analysis keeps_extract_readme split: exn.splits)
  have eK: "emits (\<lambda>c. True) (catch_io K H)"
    unfolding K_def H_def
    by (auto intro!: emits_bind emits_intros emits_analysis emits_extract_readme split: exn.splits)
  from kK have f: "fs (snd (catch_io K H w3)) = fs w3"
    unfolding keeps_fs_def by blast
  from eK obtain xs where c: "calls (snd (catch_io K H w3)) = calls w3 @ xs"
    unfolding emits_def by blast
  have c3: "calls w3 = calls w @ [PathExists ?p, Rmtree ?p, CloneFrom u ?p]"
    by (simp add: w3_def)
  have "calls (snd (process_repository E r d s tok w)) =
          calls w @ [PathExists ?p, Rmtree ?p, CloneFrom u ?p] @ xs"
    by (simp only: run c c3 append_assoc)
  then have "take 3 (drop (length (calls w)) (calls (snd (process_repository E r d s tok w)))) =
           [PathExists ?p, Rmtree ?p, CloneFrom u ?p]"
    by simp
  moreover have "fs (snd (process_repository E r d s tok w)) k =
                   (if k = ?p then Some Dir else tree k)" if "inside ?p k" for k
  proof -
    have "fs (snd (process_repository E r d s tok w)) k = fs w3 k"
      by (simp only: run f)
    also have "\<dots> = (if k = ?p then Some Dir else tree k)"
      using that by (auto simp add: w3_def)
    finally show ?thesis .
  qed
  ultimately show ?thesis by blast
qed

theorem stale_working_copy_is_deleted_before_clone_witness:
  "fs stale_world ''temp_repos/demo/old.txt'' = Some (File (Some ''old'')) \<and>
   take 3 (drop (length (calls stale_world))
             (calls (snd (process_repository demo_env demo_repo ''temp_repos''
                            ''http://localhost:9000'' (Some ''gh tok'') stale_world)))) =
     [PathExists ''temp_repos/demo'', Rmtree ''temp_repos/demo'',
      CloneFrom ''https://gh%20tok@host/org/demo.git'' ''temp_repos/demo''] \<and>
   fs (snd (process_repository demo_env demo_repo ''temp_repos''
              ''http://localhost:9000'' (Some ''gh tok'') stale_world))
      ''temp_repos/demo/old.txt'' = None \<and>
   fs (snd (process_repository demo_env demo_repo ''temp_repos''
              ''http://localhost:9000'' (Some ''gh tok'') stale_world))
      ''temp_repos/demo/README.md'' = Some (File (Some ''# demo''))"
proof -
  have j: "os_path_join ''temp_repos'' (name demo_repo) = ''temp_repos/demo''"
    by (simp add: os_path_join_def demo_repo_def)
  have a1: "fs stale_world ''temp_repos/demo'' = Some Dir"
    by (simp add: stale_world_def)
  have a2: "auth_clone_url demo_env demo_repo (Some ''gh tok'') =
              Inr ''https://gh%20tok@host/org/demo.git''"
    by (simp add: eval_defs)
  have a3: "clone_from demo_env
              (calls stale_world @ [PathExists ''temp_repos/demo'', Rmtree ''temp_repos/demo''])
              ''https://gh%20tok@host/org/demo.git'' ''temp_repos/demo'' = Inr demo_tree"
    by (simp add: demo_env_def)
  have i1: "inside ''temp_repos/demo'' ''temp_repos/demo/old.txt''"
    and i2: "inside ''temp_repos/demo'' ''temp_repos/demo/README.md''"
    by (simp_all add: inside_def)
  from stale_working_copy_is_deleted_before_clone [of stale_world "''temp_repos''" demo_repo
      demo_env "Some ''gh tok''" _ demo_tree "''http://localhost:9000''", unfolded j, OF a1 a2 a3]
    i1 i2
  show ?thesis by (simp add: stale_world_def demo_tree_def)
qed

subsection \<open>The endpoint and the private flag\<close>

lemma emits_publish:
  assumes "\<And>u hs d. P (RequestsPost u hs d)" and "\<And>p. P (RepoOpen p)"
    and "\<And>p n u. P (CreateRemote p n u)" and "\<And>p n b. P (Push p n b)"
  shows "emits P (push_to_gitlab E rp rn url)"
  unfolding push_to_gitlab_def publish_def raise_for_status_def Let_def
  by (auto intro!: emits_bind emits_intros assms)

lemma emits_process_repo:
  "emits (\<lambda>c. \<forall>u p. c = CloneFrom u p \<longrightarrow> u = repo_url)
     (process_repo E repo_url)"
proof -
  let ?P = "\<lambda>c. \<forall>u p. c = CloneFrom u p \<longrightarrow> u = repo_url"
  have "emits ?P (process_repository E
           \<lparr>name = repo_name_of_url repo_url, clone_url = repo_url, is_private = False\<rparr>
           ''temp_repos'' ''http://localhost:9000'' (GITHUB_TOKEN E))"
    by (rule emits_mono [OF emits_process_repository]) (simp add: auth_clone_url_def)
  then show ?thesis
    unfolding process_repo_def process_repo_body_def Let_def
    by (auto intro!: emits_bind emits_intros emits_analysis emits_extract_readme emits_publish)
qed

lemma analysis_ignores_github_token:
  "perform_code_analysis (E\<lparr>GITHUB_TOKEN := t\<rparr>) = perform_code_analysis E"
proof -
  have a: "check_sonarscanner_availability (E\<lparr>GITHUB_TOKEN := t\<rparr>) = check_sonarscanner_availability E"
    by (simp add: check_sonarscanner_availability_def)
  have b: "check_sonarqube_availability (E\<lparr>GITHUB_TOKEN := t\<rparr>) = check_sonarqube_availability E"
    by (simp add: check_sonarqube_availability_def fun_eq_iff)
  have c: "scan_and_fetch (E\<lparr>GITHUB_TOKEN := t\<rparr>) = scan_and_fetch E"
    by (simp add: scan_and_fetch_def sonar_scanner_cmd_def sonar_api_url_def project_key_def
        fun_eq_iff)
  show ?thesis
    by (intro ext) (unfold perform_code_analysis_def a b c, rule refl)
qed

lemma publisher_ignores_github_token:
  "push_to_gitlab (E\<lparr>GITHUB_TOKEN := t\<rparr>) = push_to_gitlab E"
  by (simp add: push_to_gitlab_def publish_def gitlab_remote_url_def Let_def fun_eq_iff
      cong: if_cong)

lemma public_clone_ignores_github_token:
  "\<not> is_private r \<Longrightarrow>
     process_repository (E\<lparr>GITHUB_TOKEN := t\<rparr>) r d s tok = process_repository E r d s tok'"
  by (simp add: process_repository_def clone_and_analyse_def auth_clone_url_def
      repo_clone_from_def analysis_ignores_github_token Let_def fun_eq_iff cong: if_cong)

text \<open>
  C10. The endpoint builds its descriptor with the private flag false (line 212). So every
  clone made while serving a request uses the URL of the request as it came, and the
  reply and the whole run are the same whatever the value of \<^verbatim>\<open>GITHUB_TOKEN\<close>: the
  branch that embeds the token is never taken.
\<close>

theorem endpoint_clones_unmodified_url:
  "(\<forall>u p. CloneFrom u p \<in> set (drop (length (calls w))
                                     (calls (snd (process_repo E repo_url w)))) \<longrightarrow>
           u = repo_url) \<and>
   process_repo (E\<lparr>GITHUB_TOKEN := t\<rparr>) repo_url w = process_repo E repo_url w"
proof -
  have "u = repo_url"
    if "CloneFrom u p \<in> set (drop (length (calls w)) (calls (snd (process_repo E repo_url w))))"
    for u p
    using emits_member [OF emits_process_repo that] by simp
  moreover have "process_repo (E\<lparr>GITHUB_TOKEN := t\<rparr>) repo_url w = process_repo E repo_url w"
  proof -
    have "process_repository (E\<lparr>GITHUB_TOKEN := t\<rparr>)
            \<lparr>name = repo_name_of_url repo_url, clone_url = repo_url, is_private = False\<rparr>
            ''temp_repos'' ''http://localhost:9000'' t =
          process_repository E
            \<lparr>name = repo_name_of_url repo_url, clone_url = repo_url, is_private = False\<rparr>
            ''temp_repos'' ''http://localhost:9000'' (GITHUB_TOKEN E)"
      by (rule public_clone_ignores_github_token) simp
    then show ?thesis
      by (simp add: process_repo_def process_repo_body_def analysis_ignores_github_token
          publisher_ignores_github_token Let_def)
  qed
  ultimately show ?thesis by blast
qed

theorem endpoint_clones_unmodified_url_witness:
  "CloneFrom demo_url ''temp_repos/demo''
     \<in> set (drop (length (calls empty_world))
               (calls (snd (process_repo demo_env demo_url empty_world)))) \<and>
   process_repo (demo_env\<lparr>GITHUB_TOKEN := None\<rparr>) demo_url empty_world =
     process_repo demo_env demo_url empty_world"
proof -
  have h: "CloneFrom demo_url ''temp_repos/demo''
     \<in> set (drop (length (calls empty_world))
               (calls (snd (process_repo demo_env demo_url empty_world))))"
    by (simp add: eval_defs)
  from endpoint_clones_unmodified_url [of empty_world demo_env demo_url None] h
  show ?thesis by blast
qed

text \<open>
  C2 on the endpoint. \<^verbatim>\<open>process_repository\<close> catches the clone failure, logs it and
  returns nothing, so \<^verbatim>\<open>process_repo\<close> cannot see it and goes on: with a clone that
  fails on an empty scratch directory it still probes and runs the scanner on the
  missing working copy, queries the issues, creates the project on the destination host,
  looks for the README, and only then fails in the final \<^verbatim>\<open>shutil.rmtree\<close> and
  answers 500 with the text of a FileNotFoundError.
\<close>

theorem clone_failure_does_not_stop_endpoint:
  "fst (process_repo env_clone_fails demo_url empty_world) =
     Inr (Response 500 (JObject
       [(''error'', JString ''[Errno 2] No such file or directory: temp_repos/demo'')])) \<and>
   calls (snd (process_repo env_clone_fails demo_url empty_world)) =
     [Makedirs ''temp_repos'', PathExists ''temp_repos/demo'',
      CloneFrom ''https://host/org/demo.git'' ''temp_repos/demo'',
      SubprocessRun [''sonar-scanner'', ''-v''],
      RequestsGet ''http://localhost:9000/api/system/status'' None,
      SubprocessRun [''sonar-scanner'', ''-Dsonar.projectKey=default%2Fdemo'',
                     ''-Dsonar.sources=temp_repos/demo'',
                     ''-Dsonar.host.url=http://localhost:9000'', ''-Dsonar.login=sqtok''],
      RequestsGet ''http://localhost:9000/api/issues/search?projectKeys=default%2Fdemo''
        (Some (Some ''sqtok'', [])),
      RequestsPost ''https://gitlab.com/api/v4/projects'' [(''PRIVATE-TOKEN'', Some ''gltok'')]
        (JObject [(''name'', JString ''demo''), (''visibility'', JString ''private'')]),
      RepoOpen ''temp_repos/demo'', PathExists ''temp_repos/demo/README.md'',
      Rmtree ''temp_repos/demo'']"
  by (simp add: eval_defs env_clone_fails_def)

subsection \<open>Credentials and the log\<close>



lemma related_return: "related (return_io x) (return_io x)"
  by (simp add: related_def return_io_def)

lemma related_raise: "related (raise_io e) (raise_io e)"
  by (simp add: related_def raise_io_def)

lemma related_lift: "related (lift_io r) (lift_io r)"
  by (simp add: related_def lift_io_def)

lemma related_logging: "related (logging l fmt args) (logging l fmt args)"
  by (simp add: related_def logging_def same_view_def)

lemma related_call:
  assumes "redact c1 = redact c2"
    and "\<And>h h'. map redact h = map redact h' \<Longrightarrow> o1 h = o2 h'"
  shows "related (call_io c1 o1) (call_io c2 o2)"
  unfolding related_def
proof (intro allI impI)
  fix w1 w2 assume v: "same_view w1 w2"
  then have "o1 (calls w1) = o2 (calls w2)"
    using assms(2) by (simp add: same_view_def)
  with v assms(1) show "fst (call_io c1 o1 w1) = fst (call_io c2 o2 w2) \<and>
        same_view (snd (call_io c1 o1 w1)) (snd (call_io c2 o2 w2))"
    by (simp add: call_io_def same_view_def)
qed

lemma related_bind:
  assumes "related m1 m2" and "\<And>x. related (f1 x) (f2 x)"
  shows "related (bind_io m1 f1) (bind_io m2 f2)"
  unfolding related_def
proof (intro allI impI)
  fix w1 w2 assume v: "same_view w1 w2"
  obtain r1 v1 where a: "m1 w1 = (r1, v1)" by (cases "m1 w1")
  obtain r2 v2 where b: "m2 w2 = (r2, v2)" by (cases "m2 w2")
  from assms(1) v a b have r: "r1 = r2" and sv: "same_view v1 v2"
    unfolding related_def by (metis fst_conv snd_conv)+
  show "fst (bind_io m1 f1 w1) = fst (bind_io m2 f2 w2) \<and>
        same_view (snd (bind_io m1 f1 w1)) (snd (bind_io m2 f2 w2))"
  proof (cases r1)
    case (Inl e)
    with a b r sv show ?thesis by (auto simp add: bind_io_def)
  next
    case (Inr x)
    from assms(2) [of x] sv
    have "fst (f1 x v1) = fst (f2 x v2) \<and> same_view (snd (f1 x v1)) (snd (f2 x v2))"
      unfolding related_def by blast
    with a b r Inr show ?thesis by (auto simp add: bind_io_def)
  qed
qed

lemma related_catch:
  assumes "related m1 m2" and "\<And>e. related (h1 e) (h2 e)"
  shows "related (catch_io m1 h1) (catch_io m2 h2)"
  unfolding related_def
proof (intro allI impI)
  fix w1 w2 assume v: "same_view w1 w2"
  obtain r1 v1 where a: "m1 w1 = (r1, v1)" by (cases "m1 w1")
  obtain r2 v2 where b: "m2 w2 = (r2, v2)" by (cases "m2 w2")
  from assms(1) v a b have r: "r1 = r2" and sv: "same_view v1 v2"
    unfolding related_def by (metis fst_conv snd_conv)+
  show "fst (catch_io m1 h1 w1) = fst (catch_io m2 h2 w2) \<and>
        same_view (snd (catch_io m1 h1 w1)) (snd (catch_io m2 h2 w2))"
  proof (cases r1)
    case (Inr x)
    with a b r sv show ?thesis by (auto simp add: catch_io_def)
  next
    case (Inl e)
    from assms(2) [of e] sv
    have "fst (h1 e v1) = fst (h2 e v2) \<and> same_view (snd (h1 e v1)) (snd (h2 e v2))"
      unfolding related_def by blast
    with a b r Inl show ?thesis by (auto simp add: catch_io_def)
  qed
qed

lemma related_path_exists: "related (path_exists p) (path_exists p)"
  by (simp add: related_def path_exists_def same_view_def redact_def)

lemma related_open_read: "related (open_read p) (open_read p)"
  by (auto simp add: related_def open_read_def same_view_def redact_def Let_def
      split: option.splits node.splits)

lemma related_rmtree: "related (rmtree p) (rmtree p)"
  by (auto simp add: related_def rmtree_def same_view_def redact_def Let_def
      split: option.splits node.splits)

lemma related_clone:
  assumes "clone_blind E u1 u2"
  shows "related (repo_clone_from E u1 p) (repo_clone_from E u2 p)"
  unfolding related_def
proof (intro allI impI)
  fix w1 w2 assume v: "same_view w1 w2"
  then have c: "clone_from E (calls w1) u1 p = clone_from E (calls w2) u2 p"
    using assms by (simp add: clone_blind_def same_view_def)
  from v have f: "fs w1 = fs w2" and l: "logs w1 = logs w2"
    and m: "map redact (calls w1) = map redact (calls w2)"
    by (simp_all add: same_view_def)
  show "fst (repo_clone_from E u1 p w1) = fst (repo_clone_from E u2 p w2) \<and>
        same_view (snd (repo_clone_from E u1 p w1)) (snd (repo_clone_from E u2 p w2))"
  proof (cases "clone_from E (calls w2) u2 p")
    case (Inl e)
    with c f l m show ?thesis
      by (simp add: repo_clone_from_def same_view_def redact_def Let_def)
  next
    case (Inr tree)
    with c f l m show ?thesis
      by (simp add: repo_clone_from_def same_view_def redact_def Let_def cong: if_cong)
  qed
qed

lemmas related_intros = related_return related_raise related_lift related_logging
  related_bind related_catch related_path_exists related_open_read related_rmtree

lemma related_analysis:
  assumes "credential_blind E"
  shows "related (perform_code_analysis E rp rn u) (perform_code_analysis E rp rn u)"
proof -
  have sp: "\<And>h h' c. map redact h = map redact h' \<Longrightarrow>
                subprocess_run E h c = subprocess_run E h' c"
    and rg: "\<And>h h' x a. map redact h = map redact h' \<Longrightarrow>
                requests_get E h x a = requests_get E h' x a"
    using assms unfolding credential_blind_def by metis+
  show ?thesis
    unfolding analysis_defs Let_def
    by (auto intro!: related_intros related_call sp rg split: exn.splits)
qed

lemma related_extract_readme: "related (extract_readme rp) (extract_readme rp)"
  unfolding extract_readme_def Let_def
  by (auto intro!: related_intros)


lemma bind_lift_Inr: "bind_io (lift_io (Inr x)) f = f x"
  by (simp add: bind_io_def lift_io_def)

lemma related_clone_and_analyse:
  assumes "credential_blind E"
    and "auth_clone_url E r tok1 = Inr u1" and "auth_clone_url E r tok2 = Inr u2"
    and "clone_blind E u1 u2"
  shows "related (clone_and_analyse E r d s tok1) (clone_and_analyse E r d s tok2)"
  unfolding clone_and_analyse_def Let_def assms(2,3) bind_lift_Inr
  by (auto intro!: related_intros related_clone assms(4) related_analysis [OF assms(1)]
      related_extract_readme)

lemma related_process_repository:
  assumes "credential_blind E"
    and "auth_clone_url E r tok1 = Inr u1" and "auth_clone_url E r tok2 = Inr u2"
    and "clone_blind E u1 u2"
  shows "related (process_repository E r d s tok1) (process_repository E r d s tok2)"
  unfolding process_repository_def Let_def
  by (auto intro!: related_intros related_clone_and_analyse [OF assms] split: exn.splits)

lemma related_bind_lift:
  assumes "(\<exists>e. r1 = Inl e \<and> r2 = Inl e) \<or>
           (\<exists>x1 x2. r1 = Inr x1 \<and> r2 = Inr x2 \<and> related (f1 x1) (f2 x2))"
  shows "related (bind_io (lift_io r1) f1) (bind_io (lift_io r2) f2)"
  using assms
  by (auto simp add: related_def bind_io_def lift_io_def)

lemma related_publish:
  assumes "credential_blind E"
  shows "related (publish (E\<lparr>GITLAB_TOKEN := t1\<rparr>) rp rn url)
                 (publish (E\<lparr>GITLAB_TOKEN := t2\<rparr>) rp rn url)"
proof -
  have po: "\<And>h h' u hs hs' d. map redact h = map redact h' \<Longrightarrow>
              requests_post E h u hs d = requests_post E h' u hs' d"
    and ro: "\<And>h h' p. map redact h = map redact h' \<Longrightarrow> repo_open E h p = repo_open E h' p"
    and cr: "\<And>h h' p n u u'. map redact h = map redact h' \<Longrightarrow>
              create_remote E h p n u = create_remote E h' p n u'"
    and pu: "\<And>h h' p n b. map redact h = map redact h' \<Longrightarrow> push E h p n b = push E h' p n b"
    using assms unfolding credential_blind_def by metis+
  have remote: "(\<exists>e. gitlab_remote_url (E\<lparr>GITLAB_TOKEN := t1\<rparr>) u = Inl e \<and>
                     gitlab_remote_url (E\<lparr>GITLAB_TOKEN := t2\<rparr>) u = Inl e) \<or>
                (\<exists>x1 x2. gitlab_remote_url (E\<lparr>GITLAB_TOKEN := t1\<rparr>) u = Inr x1 \<and>
                         gitlab_remote_url (E\<lparr>GITLAB_TOKEN := t2\<rparr>) u = Inr x2)" for u
    by (cases u) (simp_all add: gitlab_remote_url_def json_replace_def)
  have step: "related
      (bind_io (lift_io (gitlab_remote_url (E\<lparr>GITLAB_TOKEN := t1\<rparr>) u))
         (\<lambda>remote_url. bind_io (call_io (CreateRemote rp ''gitlab'' remote_url)
                                  (\<lambda>h. create_remote E h rp ''gitlab'' remote_url)) g))
      (bind_io (lift_io (gitlab_remote_url (E\<lparr>GITLAB_TOKEN := t2\<rparr>) u))
         (\<lambda>remote_url. bind_io (call_io (CreateRemote rp ''gitlab'' remote_url)
                                  (\<lambda>h. create_remote E h rp ''gitlab'' remote_url)) g))"
    if "\<And>x. related (g x) (g x)" for u g
  proof (rule related_bind_lift)
    from remote [of u] that
    show "(\<exists>e. gitlab_remote_url (E\<lparr>GITLAB_TOKEN := t1\<rparr>) u = Inl e \<and>
               gitlab_remote_url (E\<lparr>GITLAB_TOKEN := t2\<rparr>) u = Inl e) \<or>
          (\<exists>x1 x2. gitlab_remote_url (E\<lparr>GITLAB_TOKEN := t1\<rparr>) u = Inr x1 \<and>
               gitlab_remote_url (E\<lparr>GITLAB_TOKEN := t2\<rparr>) u = Inr x2 \<and>
               related (bind_io (call_io (CreateRemote rp ''gitlab'' x1)
                                  (\<lambda>h. create_remote E h rp ''gitlab'' x1)) g)
                       (bind_io (call_io (CreateRemote rp ''gitlab'' x2)
                                  (\<lambda>h. create_remote E h rp ''gitlab'' x2)) g))"
      by (auto intro!: related_bind related_call cr simp add: redact_def)
  qed
  show ?thesis
    unfolding publish_def raise_for_status_def Let_def
    apply simp
    apply (intro step related_bind related_lift)
    apply (auto intro!: related_intros related_call po ro pu simp add: redact_def)
    done
qed


lemma related_push_to_gitlab:
  assumes "credential_blind E"
  shows "related (push_to_gitlab (E\<lparr>GITLAB_TOKEN := t1\<rparr>) rp rn url)
                 (push_to_gitlab (E\<lparr>GITLAB_TOKEN := t2\<rparr>) rp rn url)"
  unfolding push_to_gitlab_def
  by (auto intro!: related_intros related_publish [OF assms])

lemma related_same_start:
  assumes "related m1 m2"
  shows "fst (m1 w) = fst (m2 w) \<and> logs (snd (m1 w)) = logs (snd (m2 w))"
proof -
  have "same_view w w" by (simp add: same_view_def)
  with assms show ?thesis unfolding related_def same_view_def by blast
qed

text \<open>
  C1, as the code has it. No logging call of the pipeline takes the token or a URL built
  from it: a credential can reach the log only inside what an outside call answers, the
  text of a caught exception above all. In an environment whose answers do not depend on
  the credentials shown to it, two runs of \<^verbatim>\<open>process_repository\<close> that differ only in
  the access token write the same log, and two runs of \<^verbatim>\<open>push_to_gitlab\<close> that differ
  only in the token of the destination host write the same log and return the same
  value.
\<close>

theorem logs_reveal_credentials_only_through_answers:
  assumes "credential_blind E"
    and "auth_clone_url E r tok1 = Inr u1" and "auth_clone_url E r tok2 = Inr u2"
    and "clone_blind E u1 u2"
  shows "logs (snd (process_repository E r d s tok1 w)) =
           logs (snd (process_repository E r d s tok2 w)) \<and>
         logs (snd (push_to_gitlab (E\<lparr>GITLAB_TOKEN := t1\<rparr>) rp rn url w)) =
           logs (snd (push_to_gitlab (E\<lparr>GITLAB_TOKEN := t2\<rparr>) rp rn url w)) \<and>
         fst (push_to_gitlab (E\<lparr>GITLAB_TOKEN := t1\<rparr>) rp rn url w) =
           fst (push_to_gitlab (E\<lparr>GITLAB_TOKEN := t2\<rparr>) rp rn url w)"
  using related_same_start [OF related_process_repository [OF assms], where w = w]
    related_same_start [OF related_push_to_gitlab [OF assms(1)], where w = w]
  by blast

theorem logs_reveal_credentials_only_through_answers_witness:
  "credential_blind demo_env \<and>
   auth_clone_url demo_env demo_repo (Some ''tokenA'') = Inr ''https://tokenA@host/org/demo.git'' \<and>
   auth_clone_url demo_env demo_repo (Some ''tokenB'') = Inr ''https://tokenB@host/org/demo.git'' \<and>
   logs (snd (process_repository demo_env demo_repo ''temp_repos'' ''http://localhost:9000''
                (Some ''tokenA'') empty_world)) =
     logs (snd (process_repository demo_env demo_repo ''temp_repos'' ''http://localhost:9000''
                  (Some ''tokenB'') empty_world)) \<and>
   logs (snd (push_to_gitlab (demo_env\<lparr>GITLAB_TOKEN := Some ''tokenA''\<rparr>) ''temp_repos/demo''
                ''demo'' demo_url empty_world)) =
     logs (snd (push_to_gitlab (demo_env\<lparr>GITLAB_TOKEN := Some ''tokenB''\<rparr>) ''temp_repos/demo''
                  ''demo'' demo_url empty_world))"
proof -
  have a1: "credential_blind demo_env"
    by (simp add: credential_blind_def demo_env_def)
  have a2: "auth_clone_url demo_env demo_repo (Some ''tokenA'') =
              Inr ''https://tokenA@host/org/demo.git''"
    by (simp add: eval_defs)
  have a3: "auth_clone_url demo_env demo_repo (Some ''tokenB'') =
              Inr ''https://tokenB@host/org/demo.git''"
    by (simp add: eval_defs)
  have a4: "clone_blind demo_env ''https://tokenA@host/org/demo.git''
              ''https://tokenB@host/org/demo.git''"
    by (simp add: clone_blind_def demo_env_def)
  from logs_reveal_credentials_only_through_answers [OF a1 a2 a3 a4,
      where d = "''temp_repos''" and s = "''http://localhost:9000''" and w = empty_world
        and ?t1.0 = "Some ''tokenA''" and ?t2.0 = "Some ''tokenB''"
        and rp = "''temp_repos/demo''" and rn = "''demo''" and url = demo_url] a1 a2 a3
  show ?thesis by simp
qed

text \<open>
  C1 as stated fails: the handler of line 146 logs \<^verbatim>\<open>str(e)\<close> of the GitError as it
  is, and the message of a failed \<^verbatim>\<open>git clone\<close> quotes the command line with the URL
  it was given. With a private repository and the token \<^verbatim>\<open>ghtok\<close> the log holds the
  authenticated URL, and the token with it.
\<close>

theorem clone_failure_log_counterexample:
  "list_ex (log_exposes ''https://ghtok@host/org/demo.git'')
     (logs (snd (process_repository env_clone_fails demo_repo ''temp_repos''
                   ''http://localhost:9000'' (Some ''ghtok'') empty_world))) \<and>
   list_ex (log_exposes ''ghtok'')
     (logs (snd (process_repository env_clone_fails demo_repo ''temp_repos''
                   ''http://localhost:9000'' (Some ''ghtok'') empty_world)))"
  by (simp add: eval_defs env_clone_fails_def log_exposes_def)

end
